theory Spec2Isabelle
  imports Main "HOL-Library.Sublist"
begin

section \<open>Strings and JavaScript truthiness\<close>

text \<open>
  TypeScript strings are modelled as \<^typ>\<open>string\<close> (lists of characters); a value of
  type \<^verbatim>\<open>string | null | undefined\<close> is a \<^typ>\<open>string option\<close>, and an
  object that may be \<^verbatim>\<open>undefined\<close> is an option of its record.
\<close>

text \<open>\<^verbatim>\<open>String.prototype.startsWith\<close>: the receiver begins with the search string.\<close>

definition startsWith :: "string \<Rightarrow> string \<Rightarrow> bool" where
  "startsWith s searchString = prefix searchString s"

text \<open>
  The truthy content of an optional string: \<^verbatim>\<open>undefined\<close>, \<^verbatim>\<open>null\<close> and the
  empty string are falsy, every other string is truthy. Both \<^verbatim>\<open>!x\<close> and
  \<^verbatim>\<open>x || d\<close> in the sources test exactly this.
\<close>

definition truthy_str :: "string option \<Rightarrow> string option" where
  "truthy_str v = (case v of None \<Rightarrow> None | Some s \<Rightarrow> if s = [] then None else Some s)"

text \<open>\<^verbatim>\<open>x || d\<close> on an optional string \<open>x\<close> and a default \<open>d\<close>.\<close>

definition or_default :: "string option \<Rightarrow> string \<Rightarrow> string" where
  "or_default v d = (case truthy_str v of None \<Rightarrow> d | Some s \<Rightarrow> s)"

text \<open>
  \<^verbatim>\<open>host.replace(/\./g, "&#8203;.")\<close>: a global replacement scans the string from
  left to right and replaces every full stop by the replacement text; all other
  characters are copied.
\<close>

fun replace_dots :: "string \<Rightarrow> string" where
  "replace_dots [] = []"
| "replace_dots (c # cs) =
     (if c = CHR ''.'' then ''&#8203;.'' @ replace_dots cs else c # replace_dots cs)"


section \<open>Authentication: \<^verbatim>\<open>src/server/auth.ts\<close>\<close>

subsection \<open>Data\<close>

text \<open>A user row, with the columns the authentication code reads.\<close>

record user =
  u_id :: string
  u_name :: "string option"
  u_email :: string
  hashedPassword :: "string option"

text \<open>
  The JWT payload. The callbacks write \<open>name\<close> and \<open>id\<close>; every other entry of the
  token lives in the fields \<open>t_email\<close>, \<open>t_picture\<close>, \<open>t_sub\<close> and in the record's
  extension.
\<close>

record token =
  t_name :: "string option"
  t_email :: "string option"
  t_picture :: "string option"
  t_sub :: "string option"
  t_id :: "string option"

record session_user =
  su_name :: "string option"
  su_email :: "string option"
  su_image :: "string option"
  su_id :: "string option"

record session =
  s_user :: "session_user option"
  expires :: string

record credentials =
  c_email :: "string option"
  c_password :: "string option"

text \<open>\<^verbatim>\<open>throw new Error(msg)\<close>: the error carries its message.\<close>

datatype js_error = Error string

record theme =
  brandColor :: "string option"
  buttonText :: "string option"

record html_params =
  p_url :: string
  p_host :: string
  p_theme :: theme

record color =
  background :: string
  c_text :: string
  mainBackground :: string
  buttonBackground :: string
  buttonBorder :: string
  c_buttonText :: string
  secondaryText :: string

subsection \<open>The magic-link e-mail bodies\<close>

definition html_color :: "theme \<Rightarrow> color" where
  "html_color theme =
     (let brandColor = or_default (brandColor theme) ''#3567e2'' in
      \<lparr> background = ''#f3f4f6'',
        c_text = ''#1f2937'',
        mainBackground = ''#ffffff'',
        buttonBackground = brandColor,
        buttonBorder = brandColor,
        c_buttonText = or_default (buttonText theme) ''#ffffff'',
        secondaryText = ''#6b7280'' \<rparr>)"

text \<open>The template literal of \<^verbatim>\<open>html\<close>, one string per source line and per hole.\<close>

definition html_template :: "string \<Rightarrow> string \<Rightarrow> color \<Rightarrow> string" where
  \<open>html_template url escapedHost color =
     ''\<newline>'' @
     ''<body style="background: '' @
     background color @
     ''; margin: 0; padding: 20px; font-family: -apple-system, BlinkMacSystemFont, 'Segoe UI', Roboto, 'Helvetica Neue', Arial, sans-serif;">\<newline>'' @
     ''  <table width="100%" border="0" cellspacing="0" cellpadding="0">\<newline>'' @
     ''    <tr>\<newline>'' @
     ''      <td align="center">\<newline>'' @
     ''        <table style="background: '' @
     mainBackground color @
     ''; max-width: 600px; width: 100%; border-radius: 16px; box-shadow: 0 4px 6px -1px rgba(0, 0, 0, 0.1), 0 2px 4px -1px rgba(0, 0, 0, 0.06);">\<newline>'' @
     ''          <tr>\<newline>'' @
     ''            <td style="padding: 40px 48px;">\<newline>'' @
     ''              <table width="100%" border="0" cellspacing="0" cellpadding="0">\<newline>'' @
     ''                <tr>\<newline>'' @
     ''                  <td>\<newline>'' @
     ''                    <h1 style="margin: 0 0 24px; font-size: 24px; font-weight: 600; color: '' @
     c_text color @
     ''; text-align: center;">\<newline>'' @
     ''                      Welcome to <strong>'' @
     escapedHost @
     ''</strong>\<newline>'' @
     ''                    </h1>\<newline>'' @
     ''                    <p style="margin: 0 0 24px; font-size: 16px; line-height: 24px; color: '' @
     secondaryText color @
     ''; text-align: center;">\<newline>'' @
     ''                      Click the button below to sign in to your account.\<newline>'' @
     ''                    </p>\<newline>'' @
     ''                  </td>\<newline>'' @
     ''                </tr>\<newline>'' @
     ''                <tr>\<newline>'' @
     ''                  <td align="center" style="padding: 16px 0 32px;">\<newline>'' @
     ''                    <a href="'' @
     url @
     ''" \<newline>'' @
     ''                      target="_blank"\<newline>'' @
     ''                      style="display: inline-block; padding: 14px 32px; font-size: 16px; font-weight: 500; color: '' @
     c_buttonText color @
     ''; background: '' @
     buttonBackground color @
     ''; border-radius: 8px; text-decoration: none; transition: all 0.2s; box-shadow: 0 4px 6px -1px rgba(0, 0, 0, 0.1), 0 2px 4px -1px rgba(0, 0, 0, 0.06);">\<newline>'' @
     ''                      Sign in to your account\<newline>'' @
     ''                    </a>\<newline>'' @
     ''                  </td>\<newline>'' @
     ''                </tr>\<newline>'' @
     ''                <tr>\<newline>'' @
     ''                  <td>\<newline>'' @
     ''                    <p style="margin: 0; font-size: 14px; line-height: 20px; color: '' @
     secondaryText color @
     ''; text-align: center;">\<newline>'' @
     ''                      If you didn't request this email, you can safely ignore it.\<newline>'' @
     ''                    </p>\<newline>'' @
     ''                  </td>\<newline>'' @
     ''                </tr>\<newline>'' @
     ''              </table>\<newline>'' @
     ''            </td>\<newline>'' @
     ''          </tr>\<newline>'' @
     ''        </table>\<newline>'' @
     ''      </td>\<newline>'' @
     ''    </tr>\<newline>'' @
     ''  </table>\<newline>'' @
     ''</body>\<newline>''\<close>

definition html :: "html_params \<Rightarrow> string" where
  "html params =
     (let url = p_url params; host = p_host params; theme = p_theme params;
          escapedHost = replace_dots host;
          color = html_color theme
      in html_template url escapedHost color)"

text \<open>The plain-text body.\<close>

definition text_body :: "string \<Rightarrow> string \<Rightarrow> string" where
  "text_body url host = ''Sign in to '' @ host @ ''\<newline>'' @ url @ ''\<newline>\<newline>''"

subsection \<open>The callbacks\<close>

text \<open>
  \<^verbatim>\<open>session({ session, token })\<close> assigns into \<^verbatim>\<open>session.user\<close> when that object is
  present and returns the session.
\<close>

definition session_cb :: "session \<Rightarrow> 'a token_scheme \<Rightarrow> session" where
  "session_cb session token =
     (case s_user session of
        None \<Rightarrow> session
      | Some su \<Rightarrow> session\<lparr> s_user := Some (su\<lparr> su_name := t_name token, su_id := t_id token \<rparr>) \<rparr>)"

text \<open>
  \<^verbatim>\<open>jwt({ token, user })\<close>: \<open>user\<close> is supplied on sign-in only and is
  \<^verbatim>\<open>undefined\<close> on every later call.
\<close>

definition jwt :: "'a token_scheme \<Rightarrow> user option \<Rightarrow> 'a token_scheme" where
  "jwt token user =
     (case user of
        None \<Rightarrow> token
      | Some u \<Rightarrow> token\<lparr> t_name := u_name u, t_id := Some (u_id u) \<rparr>)"

definition redirect :: "string \<Rightarrow> string \<Rightarrow> string" where
  "redirect url baseUrl =
     (if startsWith url (baseUrl @ ''/api/auth/signout'') then baseUrl
      else if startsWith url baseUrl then url else baseUrl)"

text \<open>\<^verbatim>\<open>session.maxAge\<close>, in seconds.\<close>

definition maxAge :: nat where
  "maxAge = 2592000 * 3"

subsection \<open>Credential sign-in\<close>

text \<open>\<^verbatim>\<open>db.user.findUnique({ where: { email } })\<close> over the rows of the user table.\<close>

definition findUnique_email :: "user list \<Rightarrow> string \<Rightarrow> user option" where
  "findUnique_email users email = find (\<lambda>u. u_email u = email) users"

text \<open>
  \<^verbatim>\<open>authorize(credentials)\<close>. bcrypt's \<^verbatim>\<open>compare\<close> is a parameter, and so is the
  user table. The result is the thrown error or the user returned.
\<close>

definition authorize ::
  "(string \<Rightarrow> string \<Rightarrow> bool) \<Rightarrow> user list \<Rightarrow> credentials option \<Rightarrow> js_error + user" where
  "authorize compare users credentials =
     (case credentials of
        None \<Rightarrow> Inl (Error ''Email and password required'')
      | Some c \<Rightarrow>
          (case (truthy_str (c_email c), truthy_str (c_password c)) of
             (Some email, Some password) \<Rightarrow>
               (case findUnique_email users email of
                  None \<Rightarrow> Inl (Error ''Email does not exist'')
                | Some user \<Rightarrow>
                    (case truthy_str (hashedPassword user) of
                       None \<Rightarrow> Inl (Error ''Email does not exist'')
                     | Some hash \<Rightarrow>
                         if \<not> compare password hash then Inl (Error ''Incorrect password'')
                         else Inr user))
           | _ \<Rightarrow> Inl (Error ''Email and password required'')))"


section \<open>The file router\<close>

record File =
  f_id :: string
  userId :: string
  key :: string

text \<open>
  The context of a protected procedure: the file table and the id of the signed-in
  user (\<^verbatim>\<open>ctx.session.user.id\<close>).
\<close>

record 'f ctx =
  db_file :: "'f list"
  session_user_id :: string

datatype trpc_code = NOT_FOUND

datatype error = TRPCError trpc_code | PrismaRecordNotFound

text \<open>\<^verbatim>\<open>findFirst({ where })\<close>: the first row that satisfies the filter, or null.\<close>

definition findFirst :: "('r \<Rightarrow> bool) \<Rightarrow> 'r list \<Rightarrow> 'r option" where
  "findFirst wh rows = find wh rows"

text \<open>\<^verbatim>\<open>findMany({ where })\<close>: all rows that satisfy the filter.\<close>

definition findMany :: "('r \<Rightarrow> bool) \<Rightarrow> 'r list \<Rightarrow> 'r list" where
  "findMany wh rows = filter wh rows"

text \<open>
  \<^verbatim>\<open>delete({ where: { id } })\<close> removes the one row selected by the unique column
  \<open>id\<close>; it throws when there is no such row (\<open>None\<close>).
\<close>

fun delete_id :: "string \<Rightarrow> 'a File_scheme list \<Rightarrow> 'a File_scheme list option" where
  "delete_id i [] = None"
| "delete_id i (f # fs) =
     (if f_id f = i then Some fs else map_option ((#) f) (delete_id i fs))"

definition fetchAll :: "'a File_scheme ctx \<Rightarrow> 'a File_scheme list" where
  "fetchAll ctx = findMany (\<lambda>f. userId f = session_user_id ctx) (db_file ctx)"

definition fetchFile :: "'a File_scheme ctx \<Rightarrow> string \<Rightarrow> error + 'a File_scheme" where
  "fetchFile ctx input_id =
     (case findFirst (\<lambda>f. f_id f = input_id) (db_file ctx) of
        None \<Rightarrow> Inl (TRPCError NOT_FOUND)
      | Some file \<Rightarrow> Inr file)"

text \<open>The mutation returns its result and the file table it leaves behind.\<close>

definition deleteFile ::
  "'a File_scheme ctx \<Rightarrow> string \<Rightarrow> (error + 'a File_scheme) \<times> 'a File_scheme list" where
  "deleteFile ctx input_id =
     (case findFirst (\<lambda>f. f_id f = input_id \<and> userId f = session_user_id ctx) (db_file ctx) of
        None \<Rightarrow> (Inl (TRPCError NOT_FOUND), db_file ctx)
      | Some file \<Rightarrow>
          (case delete_id input_id (db_file ctx) of
             None \<Rightarrow> (Inl PrismaRecordNotFound, db_file ctx)
           | Some rows \<Rightarrow> (Inr file, rows)))"

definition getFile :: "'a File_scheme ctx \<Rightarrow> string \<Rightarrow> error + 'a File_scheme" where
  "getFile ctx input_key =
     (case findFirst (\<lambda>f. key f = input_key \<and> userId f = session_user_id ctx) (db_file ctx) of
        None \<Rightarrow> Inl (TRPCError NOT_FOUND)
      | Some file \<Rightarrow> Inr file)"


section \<open>Notions of the specification\<close>

text \<open>
  The specification speaks of origins, of the path a URL targets and of the labels
  of a host; the sources do not. The following definitions give these words a meaning
  so that the specification's sentences can be stated next to what the code does.
  None of them is part of the program.
\<close>

text \<open>
  The origin of an absolute URL: its scheme, \<open>://\<close> and its authority, which ends at
  the first \<open>/\<close>, \<open>?\<close> or \<open>#\<close>. A string without \<open>://\<close> after its scheme has none.
\<close>

definition spec_origin :: "string \<Rightarrow> string option" where
  "spec_origin url =
     (let scheme = takeWhile (\<lambda>c. c \<noteq> CHR '':'') url;
          rest = dropWhile (\<lambda>c. c \<noteq> CHR '':'') url
      in if startsWith rest ''://''
         then Some (scheme @ ''://'' @ takeWhile (\<lambda>c. c \<notin> set ''/?#'') (drop 3 rest))
         else None)"

text \<open>
  The path of an absolute URL: what follows its origin, up to the first \<open>?\<close> or \<open>#\<close>.
  A URL targets the sign-out endpoint when its path is \<^verbatim>\<open>/api/auth/signout\<close>.
\<close>

definition spec_path :: "string \<Rightarrow> string option" where
  "spec_path url =
     (case spec_origin url of
        None \<Rightarrow> None
      | Some origin \<Rightarrow> Some (takeWhile (\<lambda>c. c \<notin> set ''?#'') (drop (length origin) url)))"


text \<open>
  The credentials handed to \<^verbatim>\<open>authorize\<close>, read as the guard at its head reads them:
  the e-mail and the password when both are present and non-empty.
\<close>

definition supplied :: "credentials option \<Rightarrow> (string \<times> string) option" where
  "supplied credentials =
     (case credentials of
        None \<Rightarrow> None
      | Some c \<Rightarrow>
          (case (truthy_str (c_email c), truthy_str (c_password c)) of
             (Some email, Some password) \<Rightarrow> Some (email, password)
           | _ \<Rightarrow> None))"

text \<open>The labels of a host, joined by a separator (\<^verbatim>\<open>labels.join(sep)\<close>).\<close>

fun join :: "string \<Rightarrow> string list \<Rightarrow> string" where
  "join sep [] = []"
| "join sep [x] = x"
| "join sep (x # y # ys) = x @ sep @ join sep (y # ys)"


section \<open>Sample data\<close>

text \<open>Concrete rows and requests at which the theorems below are instantiated.\<close>

definition alice_file :: File where
  "alice_file = \<lparr> f_id = ''f1'', userId = ''alice'', key = ''k1'' \<rparr>"

definition bob_file :: File where
  "bob_file = \<lparr> f_id = ''f2'', userId = ''bob'', key = ''k2'' \<rparr>"

definition ann_credentials :: "credentials option" where
  "ann_credentials = Some \<lparr> c_email = Some ''ann@example.com'', c_password = Some ''secret'' \<rparr>"

definition ann_oauth_only :: user where
  "ann_oauth_only = \<lparr> u_id = ''u1'', u_name = Some ''Ann'', u_email = ''ann@example.com'',
     hashedPassword = None \<rparr>"

definition ann_with_hash :: user where
  "ann_with_hash = \<lparr> u_id = ''u1'', u_name = Some ''Ann'', u_email = ''ann@example.com'',
     hashedPassword = Some ''$2b$10$hash'' \<rparr>"

definition fresh_token :: token where
  "fresh_token = \<lparr> t_name = None, t_email = Some ''ann@example.com'', t_picture = None,
     t_sub = Some ''u1'', t_id = None \<rparr>"

definition fresh_session :: session where
  "fresh_session = \<lparr> s_user = Some \<lparr> su_name = None, su_email = Some ''ann@example.com'',
     su_image = None, su_id = None \<rparr>, expires = ''2027-02-01T00:00:00.000Z'' \<rparr>"

definition sample_params :: html_params where
  "sample_params = \<lparr> p_url = ''https://example.com/api/auth/callback/email?token=abc'',
     p_host = ''example.com'', p_theme = \<lparr> brandColor = None, buttonText = None \<rparr> \<rparr>"


section \<open>Properties of the redirect callback\<close>

text \<open>
  Where the callback keeps a redirect on the site: a URL that does not begin with the
  base URL is replaced by the base URL; a URL that continues the base URL with a path is
  returned unchanged unless the path begins with \<^verbatim>\<open>/api/auth/signout\<close>; and a URL that
  continues the base URL with \<^verbatim>\<open>/api/auth/signout\<close> is replaced by the base URL,
  whatever follows.
\<close>

lemma redirect_not_prefix:
  "\<not> startsWith url baseUrl \<Longrightarrow> redirect url baseUrl = baseUrl"
proof -
  assume no: "\<not> startsWith url baseUrl"
  have "\<not> startsWith url (baseUrl @ ''/api/auth/signout'')"
  proof
    assume "startsWith url (baseUrl @ ''/api/auth/signout'')"
    then have "startsWith url baseUrl"
      unfolding startsWith_def by (rule append_prefixD)
    with no show False by contradiction
  qed
  with no show ?thesis
    by (simp add: redirect_def)
qed

lemma redirect_site_path:
  "\<not> startsWith (''/'' @ rest) ''/api/auth/signout'' \<Longrightarrow>
     redirect (baseUrl @ ''/'' @ rest) baseUrl = baseUrl @ ''/'' @ rest"
  by (simp add: redirect_def startsWith_def)

lemma redirect_site_signout:
  "redirect (baseUrl @ ''/api/auth/signout'' @ rest) baseUrl = baseUrl"
  by (simp add: redirect_def startsWith_def)

text \<open>
  Claim C1: a callback URL whose origin differs from the base URL's is replaced by the
  base URL. The callback tests \<^verbatim>\<open>url.startsWith(baseUrl)\<close> with nothing to end the
  host after the base URL (the sign-out branch does anchor its test with \<open>/\<close>), so a
  foreign origin that begins with the characters of the base URL passes: for the base
  URL \<^verbatim>\<open>https://example.com\<close>, the URLs \<^verbatim>\<open>https://example.com.evil.org/login\<close> and
  \<^verbatim>\<open>https://example.com:8443/login\<close> have other origins and are returned unchanged.
\<close>

theorem redirect_foreign_origin_returned:
  "spec_origin ''https://example.com.evil.org/login'' \<noteq> spec_origin ''https://example.com'' \<and>
   redirect ''https://example.com.evil.org/login'' ''https://example.com''
     = ''https://example.com.evil.org/login'' \<and>
   redirect ''https://example.com.evil.org/login'' ''https://example.com'' \<noteq> ''https://example.com'' \<and>
   spec_origin ''https://example.com:8443/login'' \<noteq> spec_origin ''https://example.com'' \<and>
   redirect ''https://example.com:8443/login'' ''https://example.com''
     = ''https://example.com:8443/login''"
  by (simp add: spec_origin_def redirect_def startsWith_def)

text \<open>
  Claim C5: a callback URL that targets the sign-out endpoint is replaced by the bare
  base URL, on the site's own origin (\<open>redirect_site_signout\<close>) and on any origin
  that does not begin with the characters of the base URL (\<open>redirect_not_prefix\<close>).
  The same missing delimiter as in claim C1 lets the sign-out URL of a foreign origin
  through: \<^verbatim>\<open>https://example.com.evil.org/api/auth/signout\<close> has the sign-out path,
  begins with the base URL \<^verbatim>\<open>https://example.com\<close> but not with the base URL followed
  by the sign-out path, and is returned unchanged.
\<close>

theorem redirect_foreign_signout_returned:
  "spec_path ''https://example.com.evil.org/api/auth/signout'' = Some ''/api/auth/signout'' \<and>
   spec_origin ''https://example.com.evil.org/api/auth/signout''
     \<noteq> spec_origin ''https://example.com'' \<and>
   redirect ''https://example.com.evil.org/api/auth/signout'' ''https://example.com''
     = ''https://example.com.evil.org/api/auth/signout'' \<and>
   redirect ''https://example.com.evil.org/api/auth/signout'' ''https://example.com''
     \<noteq> ''https://example.com''"
  by (simp add: spec_path_def spec_origin_def redirect_def startsWith_def)


section \<open>Properties of the session token\<close>

text \<open>
  Claim C9: the validity window \<^verbatim>\<open>2592000 * 3\<close> seconds is 90 days of 24 hours of 3600
  seconds.
\<close>

theorem maxAge_90_days: "maxAge = 90 * 24 * 3600 \<and> maxAge = 7776000"
  by (simp add: maxAge_def)

text \<open>
  Claim C10: called without a user, the jwt callback returns the token it was given;
  with or without a user it leaves every entry other than \<open>name\<close> and \<open>id\<close> as it was.
\<close>

theorem jwt_without_user_unchanged:
  "jwt token None = token \<and>
   t_email (jwt token user) = t_email token \<and>
   t_picture (jwt token user) = t_picture token \<and>
   t_sub (jwt token user) = t_sub token \<and>
   token.more (jwt token user) = token.more token"
  by (simp add: jwt_def split: option.split)

text \<open>
  Claim C6: when a session carries a user object (the declared type of the callback's
  session always has one), the session built from the token that the jwt callback wrote
  at sign-in exposes the id and the name of the user who signed in, also after a later
  jwt call without a user; the rest of the user object is as before.
\<close>

theorem session_jwt_roundtrip:
  assumes "s_user session = Some su"
  shows "s_user (session_cb session (jwt token (Some user)))
           = Some (su\<lparr> su_name := u_name user, su_id := Some (u_id user) \<rparr>) \<and>
         s_user (session_cb session (jwt (jwt token (Some user)) None))
           = Some (su\<lparr> su_name := u_name user, su_id := Some (u_id user) \<rparr>)"
  using assms by (simp add: session_cb_def jwt_def)

theorem session_jwt_roundtrip_witness:
  "s_user (session_cb fresh_session (jwt fresh_token (Some ann_with_hash)))
     = Some \<lparr> su_name = Some ''Ann'', su_email = Some ''ann@example.com'', su_image = None,
         su_id = Some ''u1'' \<rparr>"
proof -
  have h: "s_user fresh_session = Some \<lparr> su_name = None, su_email = Some ''ann@example.com'',
     su_image = None, su_id = None \<rparr>"
    by (simp add: fresh_session_def)
  from session_jwt_roundtrip [OF h, of fresh_token ann_with_hash, THEN conjunct1]
  show ?thesis by (simp add: ann_with_hash_def)
qed


section \<open>Properties of credential sign-in\<close>

text \<open>
  Claim C4, as the specification words it: three failure cases with three distinct
  reasons. An unknown account and an account without a password hash fail with the same
  message, and missing credentials are a fourth failure case with a message of its own.
\<close>

theorem authorize_distinct_reasons_counterexample:
  "authorize (=) [] ann_credentials = Inl (Error ''Email does not exist'') \<and>
   authorize (=) [ann_oauth_only] ann_credentials = Inl (Error ''Email does not exist'') \<and>
   authorize (=) [ann_with_hash] None = Inl (Error ''Email and password required'')"
  by (simp add: authorize_def ann_credentials_def ann_oauth_only_def truthy_str_def
      findUnique_email_def)

text \<open>
  Claim C4, amended: \<^verbatim>\<open>authorize\<close> fails with \<^verbatim>\<open>Email and password required\<close> exactly
  when the credentials, the e-mail or the password are missing or empty; otherwise with
  \<^verbatim>\<open>Email does not exist\<close> exactly when no account has the e-mail or the account has no
  (non-empty) password hash, with \<^verbatim>\<open>Incorrect password\<close> exactly when the comparison
  with the stored hash is false, and it returns the account exactly when the comparison
  is true. It fails with no other reason.
\<close>

theorem authorize_failure_reasons:
  "(authorize compare users credentials = Inl (Error ''Email and password required'')
      \<longleftrightarrow> supplied credentials = None) \<and>
   (supplied credentials = Some (email, password) \<longrightarrow>
      (authorize compare users credentials = Inl (Error ''Email does not exist'') \<longleftrightarrow>
         findUnique_email users email = None \<or>
         (\<exists>u. findUnique_email users email = Some u \<and> truthy_str (hashedPassword u) = None)) \<and>
      (authorize compare users credentials = Inl (Error ''Incorrect password'') \<longleftrightarrow>
         (\<exists>u hash. findUnique_email users email = Some u \<and>
            truthy_str (hashedPassword u) = Some hash \<and> \<not> compare password hash)) \<and>
      (authorize compare users credentials = Inr user \<longleftrightarrow>
         (\<exists>hash. findUnique_email users email = Some user \<and>
            truthy_str (hashedPassword user) = Some hash \<and> compare password hash))) \<and>
   (authorize compare users credentials = Inl e \<longrightarrow>
      e = Error ''Email and password required'' \<or> e = Error ''Email does not exist'' \<or>
      e = Error ''Incorrect password'')"
proof -
  have required: "authorize compare users credentials = Inl (Error ''Email and password required'')
      \<longleftrightarrow> supplied credentials = None"
    by (simp add: authorize_def supplied_def split: option.split prod.split)
  have given: "supplied credentials = Some (email, password) \<longrightarrow>
      (authorize compare users credentials = Inl (Error ''Email does not exist'') \<longleftrightarrow>
         findUnique_email users email = None \<or>
         (\<exists>u. findUnique_email users email = Some u \<and> truthy_str (hashedPassword u) = None)) \<and>
      (authorize compare users credentials = Inl (Error ''Incorrect password'') \<longleftrightarrow>
         (\<exists>u hash. findUnique_email users email = Some u \<and>
            truthy_str (hashedPassword u) = Some hash \<and> \<not> compare password hash)) \<and>
      (authorize compare users credentials = Inr user \<longleftrightarrow>
         (\<exists>hash. findUnique_email users email = Some user \<and>
            truthy_str (hashedPassword user) = Some hash \<and> compare password hash))"
  proof
    assume s: "supplied credentials = Some (email, password)"
    then obtain c where c: "credentials = Some c" "truthy_str (c_email c) = Some email"
      "truthy_str (c_password c) = Some password"
      by (auto simp: supplied_def split: option.splits)
    show "(authorize compare users credentials = Inl (Error ''Email does not exist'') \<longleftrightarrow>
         findUnique_email users email = None \<or>
         (\<exists>u. findUnique_email users email = Some u \<and> truthy_str (hashedPassword u) = None)) \<and>
      (authorize compare users credentials = Inl (Error ''Incorrect password'') \<longleftrightarrow>
         (\<exists>u hash. findUnique_email users email = Some u \<and>
            truthy_str (hashedPassword u) = Some hash \<and> \<not> compare password hash)) \<and>
      (authorize compare users credentials = Inr user \<longleftrightarrow>
         (\<exists>hash. findUnique_email users email = Some user \<and>
            truthy_str (hashedPassword user) = Some hash \<and> compare password hash))"
    proof (cases "findUnique_email users email")
      case None
      with c show ?thesis by (simp add: authorize_def)
    next
      case (Some u)
      show ?thesis
      proof (cases "truthy_str (hashedPassword u)")
        case None
        with Some c show ?thesis by (auto simp: authorize_def)
      next
        case (Some hash)
        with \<open>findUnique_email users email = Some u\<close> c show ?thesis
          by (auto simp: authorize_def)
      qed
    qed
  qed
  have only: "authorize compare users credentials = Inl e \<longrightarrow>
      e = Error ''Email and password required'' \<or> e = Error ''Email does not exist'' \<or>
      e = Error ''Incorrect password''"
    by (auto simp: authorize_def split: option.splits prod.splits if_splits)
  show ?thesis
    by (rule conjI [OF required conjI [OF given only]])
qed

theorem authorize_failure_reasons_witness:
  "authorize (=) [] ann_credentials = Inl (Error ''Email does not exist'') \<and>
   authorize (=) [ann_oauth_only] ann_credentials = Inl (Error ''Email does not exist'') \<and>
   authorize (=) [ann_with_hash] ann_credentials = Inl (Error ''Incorrect password'') \<and>
   authorize (=) [ann_with_hash] None = Inl (Error ''Email and password required'')"
proof -
  have s: "supplied ann_credentials = Some (''ann@example.com'', ''secret'')"
    by (simp add: supplied_def ann_credentials_def truthy_str_def)
  have n: "supplied None = None"
    by (simp add: supplied_def)
  have a: "findUnique_email [] ''ann@example.com'' = None"
    by (simp add: findUnique_email_def)
  have b: "findUnique_email [ann_oauth_only] ''ann@example.com'' = Some ann_oauth_only \<and>
      truthy_str (hashedPassword ann_oauth_only) = None"
    by (simp add: findUnique_email_def ann_oauth_only_def truthy_str_def)
  have c: "findUnique_email [ann_with_hash] ''ann@example.com'' = Some ann_with_hash \<and>
      truthy_str (hashedPassword ann_with_hash) = Some ''$2b$10$hash'' \<and>
      \<not> ''secret'' = ''$2b$10$hash''"
    by (simp add: findUnique_email_def ann_with_hash_def truthy_str_def)
  note t = authorize_failure_reasons [where credentials = ann_credentials
      and email = "''ann@example.com''" and password = "''secret''" and compare = "(=)"]
  from t [where users = "[]", THEN conjunct2, THEN conjunct1, rule_format, OF s, THEN conjunct1] a
  have 1: "authorize (=) [] ann_credentials = Inl (Error ''Email does not exist'')"
    by simp
  from t [where users = "[ann_oauth_only]", THEN conjunct2, THEN conjunct1, rule_format, OF s,
      THEN conjunct1] b
  have 2: "authorize (=) [ann_oauth_only] ann_credentials = Inl (Error ''Email does not exist'')"
    by simp
  from t [where users = "[ann_with_hash]", THEN conjunct2, THEN conjunct1, rule_format, OF s,
      THEN conjunct2, THEN conjunct1] c
  have 3: "authorize (=) [ann_with_hash] ann_credentials = Inl (Error ''Incorrect password'')"
    by simp
  from authorize_failure_reasons [where credentials = None and compare = "(=)"
      and users = "[ann_with_hash]", THEN conjunct1] n
  have 4: "authorize (=) [ann_with_hash] None = Inl (Error ''Email and password required'')"
    by simp
  from 1 2 3 4 show ?thesis by simp
qed

text \<open>
  Claim C8: for an account without a stored password hash, \<^verbatim>\<open>authorize\<close> fails with one
  of its own errors whatever password is submitted, and the outcome does not depend on
  the comparison function: the comparison is not reached.
\<close>

theorem authorize_without_hash_fails:
  assumes "findUnique_email users email = Some user"
    and "hashedPassword user = None"
  shows "authorize compare users (Some \<lparr> c_email = Some email, c_password = password \<rparr>) =
           Inl (Error (if email = [] \<or> truthy_str password = None
                       then ''Email and password required'' else ''Email does not exist'')) \<and>
         authorize compare users (Some \<lparr> c_email = Some email, c_password = password \<rparr>) =
           authorize compare' users (Some \<lparr> c_email = Some email, c_password = password \<rparr>)"
  using assms
  by (auto simp: authorize_def truthy_str_def split: option.splits)

theorem authorize_without_hash_fails_witness:
  "findUnique_email [ann_oauth_only] ''ann@example.com'' = Some ann_oauth_only \<and>
   hashedPassword ann_oauth_only = None \<and>
   authorize (=) [ann_oauth_only]
     (Some \<lparr> c_email = Some ''ann@example.com'', c_password = Some ''secret'' \<rparr>)
     = Inl (Error ''Email does not exist'')"
proof -
  have 1: "findUnique_email [ann_oauth_only] ''ann@example.com'' = Some ann_oauth_only"
    by (simp add: findUnique_email_def ann_oauth_only_def)
  have 2: "hashedPassword ann_oauth_only = None"
    by (simp add: ann_oauth_only_def)
  from authorize_without_hash_fails [OF 1 2, of "(=)" "Some ''secret''" "(=)", THEN conjunct1]
  have "authorize (=) [ann_oauth_only]
     (Some \<lparr> c_email = Some ''ann@example.com'', c_password = Some ''secret'' \<rparr>)
     = Inl (Error ''Email does not exist'')"
    by (simp add: truthy_str_def)
  with 1 2 show ?thesis by simp
qed


section \<open>Properties of the magic-link HTML body\<close>

lemma replace_dots_append: "replace_dots (xs @ ys) = replace_dots xs @ replace_dots ys"
  by (induction xs) simp_all

lemma replace_dots_no_dot: "CHR ''.'' \<notin> set xs \<Longrightarrow> replace_dots xs = xs"
  by (induction xs) auto

lemma replace_dots_join:
  "\<forall>l \<in> set labels. CHR ''.'' \<notin> set l \<Longrightarrow>
     replace_dots (join ''.'' labels) = join ''&#8203;.'' labels"
proof (induction labels rule: induct_list012)
  case 1
  show ?case by simp
next
  case (2 x)
  then show ?case by (simp add: replace_dots_no_dot)
next
  case (3 x y zs)
  then show ?case by (simp add: replace_dots_append replace_dots_no_dot)
qed

lemma sublist_skip: "sublist m ys \<Longrightarrow> sublist m (xs @ ys)"
  by (metis sublist_append)

text \<open>
  The heading is the nineteenth piece of the template: eighteen pieces are skipped, and
  the host follows the words \<open>Welcome to\<close> between the \<open>strong\<close> tags.
\<close>

lemma html_template_host:
  "sublist (''Welcome to <strong>'' @ escapedHost @ ''</strong>'')
     (html_template url escapedHost color)"
  unfolding html_template_def
  apply (rule sublist_skip, rule sublist_skip, rule sublist_skip, rule sublist_skip,
      rule sublist_skip, rule sublist_skip)
  apply (rule sublist_skip, rule sublist_skip, rule sublist_skip, rule sublist_skip,
      rule sublist_skip, rule sublist_skip)
  apply (rule sublist_skip, rule sublist_skip, rule sublist_skip, rule sublist_skip,
      rule sublist_skip, rule sublist_skip)
  apply (unfold sublist_def)
  apply (rule exI [of _ "''                      ''"])
  apply (rule exI)
  apply simp
  done

text \<open>
  Claim C7, as the specification words it: the zero-width space comes immediately after
  each dot of the host. In the body rendered for the host \<^verbatim>\<open>example.com\<close> the marker
  stands before the dot, and no dot of the body is followed by the marker.
\<close>

theorem html_zwsp_after_dot_counterexample:
  "sublist ''Welcome to <strong>example&#8203;.com</strong>'' (html sample_params) \<and>
   \<not> sublist ''.&#8203;'' (html sample_params)"
  by (simp add: html_def html_template_def html_color_def or_default_def truthy_str_def
      sample_params_def Let_def sublist_Cons_right)

text \<open>
  Claim C7, amended: the HTML body renders the host with the zero-width-space character
  reference \<^verbatim>\<open>&#8203;\<close> inserted immediately before each dot: where the host is its
  labels joined by \<open>.\<close>, the heading of the body shows the same labels joined by
  \<^verbatim>\<open>&#8203;.\<close>.
\<close>

theorem html_host_marker_before_dots:
  assumes "p_host params = join ''.'' labels"
    and "\<forall>l \<in> set labels. CHR ''.'' \<notin> set l"
  shows "sublist (''Welcome to <strong>'' @ join ''&#8203;.'' labels @ ''</strong>'')
           (html params)"
proof -
  from assms have "replace_dots (p_host params) = join ''&#8203;.'' labels"
    by (simp add: replace_dots_join)
  then have "html params = html_template (p_url params) (join ''&#8203;.'' labels)
      (html_color (p_theme params))"
    by (simp add: html_def Let_def)
  then show ?thesis
    by (simp only: html_template_host)
qed

theorem html_host_marker_before_dots_witness:
  "p_host sample_params = join ''.'' [''example'', ''com''] \<and>
   sublist ''Welcome to <strong>example&#8203;.com</strong>'' (html sample_params)"
proof -
  have 1: "p_host sample_params = join ''.'' [''example'', ''com'']"
    by (simp add: sample_params_def)
  have 2: "\<forall>l \<in> set [''example'', ''com'']. CHR ''.'' \<notin> set l"
    by simp
  from html_host_marker_before_dots [OF 1 2]
  have "sublist ''Welcome to <strong>example&#8203;.com</strong>'' (html sample_params)"
    by simp
  with 1 show ?thesis by (rule conjI)
qed


section \<open>Properties of the file router\<close>

lemma find_distinct_key:
  "distinct (map k rows) \<Longrightarrow> r \<in> set rows \<Longrightarrow> find (\<lambda>x. k x = k r) rows = Some r"
proof (induction rows)
  case Nil
  then show ?case by simp
next
  case (Cons x rows)
  show ?case
  proof (cases "k x = k r")
    case True
    with Cons.prems have "x = r" by (auto simp: image_iff)
    with True show ?thesis by simp
  next
    case False
    with Cons show ?thesis by auto
  qed
qed

lemma findFirst_None_iff: "findFirst wh rows = None \<longleftrightarrow> (\<forall>r \<in> set rows. \<not> wh r)"
  by (auto simp: findFirst_def find_None_iff)

lemma findFirst_Some_mem: "findFirst wh rows = Some r \<Longrightarrow> r \<in> set rows \<and> wh r"
  by (auto simp: findFirst_def find_Some_iff)

lemma delete_id_keeps_other:
  "delete_id i rows = Some rows' \<Longrightarrow> r \<in> set rows \<Longrightarrow> f_id r \<noteq> i \<Longrightarrow> r \<in> set rows'"
  by (induction rows arbitrary: rows') (auto split: if_splits)

text \<open>
  Claim C2: \<^verbatim>\<open>fetchFile\<close> looks the file up by id alone. In a table whose ids are
  unique it returns the file with the requested id for every caller, whoever owns the
  file; it fails exactly when no file has the id, and then with \<^verbatim>\<open>NOT_FOUND\<close>; and
  what it returns is a file of the table with the requested id.
\<close>

theorem fetchFile_by_id_only:
  "(distinct (map f_id (db_file ctx)) \<and> file \<in> set (db_file ctx)
      \<longrightarrow> fetchFile (ctx\<lparr> session_user_id := caller \<rparr>) (f_id file) = Inr file) \<and>
   (fetchFile ctx i = Inl e \<longleftrightarrow>
      e = TRPCError NOT_FOUND \<and> (\<forall>f \<in> set (db_file ctx). f_id f \<noteq> i)) \<and>
   (fetchFile ctx i = Inr file' \<longrightarrow> file' \<in> set (db_file ctx) \<and> f_id file' = i)"
proof -
  have by_id: "distinct (map f_id (db_file ctx)) \<and> file \<in> set (db_file ctx)
      \<longrightarrow> fetchFile (ctx\<lparr> session_user_id := caller \<rparr>) (f_id file) = Inr file"
  proof
    assume "distinct (map f_id (db_file ctx)) \<and> file \<in> set (db_file ctx)"
    then have "find (\<lambda>f. f_id f = f_id file) (db_file ctx) = Some file"
      by (simp add: find_distinct_key)
    then show "fetchFile (ctx\<lparr> session_user_id := caller \<rparr>) (f_id file) = Inr file"
      by (simp add: fetchFile_def findFirst_def)
  qed
  have fails: "fetchFile ctx i = Inl e \<longleftrightarrow>
      e = TRPCError NOT_FOUND \<and> (\<forall>f \<in> set (db_file ctx). f_id f \<noteq> i)"
    by (auto simp: fetchFile_def findFirst_None_iff split: option.splits
        dest: findFirst_Some_mem)
  have returns: "fetchFile ctx i = Inr file' \<longrightarrow> file' \<in> set (db_file ctx) \<and> f_id file' = i"
  proof
    assume "fetchFile ctx i = Inr file'"
    then have "findFirst (\<lambda>f. f_id f = i) (db_file ctx) = Some file'"
      by (simp add: fetchFile_def split: option.splits)
    then show "file' \<in> set (db_file ctx) \<and> f_id file' = i"
      by (auto dest: findFirst_Some_mem)
  qed
  show ?thesis
    by (rule conjI [OF by_id conjI [OF fails returns]])
qed

theorem fetchFile_by_id_only_witness:
  "fetchFile \<lparr> db_file = [alice_file, bob_file], session_user_id = ''alice'' \<rparr> ''f2'' = Inr bob_file \<and>
   userId bob_file \<noteq> ''alice'' \<and>
   fetchFile \<lparr> db_file = [alice_file, bob_file], session_user_id = ''alice'' \<rparr> ''f3''
     = Inl (TRPCError NOT_FOUND)"
proof -
  let ?ctx = "\<lparr> db_file = [alice_file, bob_file], session_user_id = ''alice'' \<rparr>"
  have h: "distinct (map f_id (db_file ?ctx)) \<and> bob_file \<in> set (db_file ?ctx)"
    by (simp add: alice_file_def bob_file_def)
  have n: "\<forall>f \<in> set (db_file ?ctx). f_id f \<noteq> ''f3''"
    by (simp add: alice_file_def bob_file_def)
  note t = fetchFile_by_id_only [of ?ctx bob_file "''alice''" "''f3''" "TRPCError NOT_FOUND"]
  from t [THEN conjunct1, rule_format, OF h]
  have a: "fetchFile ?ctx ''f2'' = Inr bob_file"
    by (simp add: bob_file_def)
  have b: "userId bob_file \<noteq> ''alice''"
    by (simp add: bob_file_def)
  from n t [THEN conjunct2, THEN conjunct1]
  have c: "fetchFile ?ctx ''f3'' = Inl (TRPCError NOT_FOUND)"
    by simp
  from a b c show ?thesis by simp
qed

text \<open>
  Claim C3: in a table whose ids are unique, a request to delete a file that another
  user owns fails with \<^verbatim>\<open>NOT_FOUND\<close> and leaves the table as it was; and no request of
  a user, whatever id it names, removes a file that another user owns.
\<close>

theorem deleteFile_other_owner:
  assumes "distinct (map f_id (db_file ctx))"
    and "F \<in> set (db_file ctx)"
    and "userId F \<noteq> session_user_id ctx"
  shows "deleteFile ctx (f_id F) = (Inl (TRPCError NOT_FOUND), db_file ctx) \<and>
         F \<in> set (snd (deleteFile ctx i))"
proof
  have none: "findFirst (\<lambda>f. f_id f = f_id F \<and> userId f = session_user_id ctx) (db_file ctx) = None"
    unfolding findFirst_None_iff
  proof
    fix f
    assume f: "f \<in> set (db_file ctx)"
    show "\<not> (f_id f = f_id F \<and> userId f = session_user_id ctx)"
    proof
      assume eq: "f_id f = f_id F \<and> userId f = session_user_id ctx"
      from assms(1) have "inj_on f_id (set (db_file ctx))"
        by (simp add: distinct_map)
      from this f assms(2) have "f = F"
        using eq by (auto dest: inj_onD)
      with eq assms(3) show False by simp
    qed
  qed
  then show first: "deleteFile ctx (f_id F) = (Inl (TRPCError NOT_FOUND), db_file ctx)"
    by (simp add: deleteFile_def)
  show "F \<in> set (snd (deleteFile ctx i))"
  proof (cases "i = f_id F")
    case True
    with first assms(2) show ?thesis by simp
  next
    case False
    with assms(2) show ?thesis
      by (auto simp: deleteFile_def split: option.splits dest: delete_id_keeps_other)
  qed
qed

theorem deleteFile_other_owner_witness:
  "deleteFile \<lparr> db_file = [alice_file, bob_file], session_user_id = ''bob'' \<rparr> ''f1''
     = (Inl (TRPCError NOT_FOUND), [alice_file, bob_file]) \<and>
   alice_file \<in> set (snd (deleteFile \<lparr> db_file = [alice_file, bob_file], session_user_id = ''bob'' \<rparr> ''f2''))"
proof -
  let ?ctx = "\<lparr> db_file = [alice_file, bob_file], session_user_id = ''bob'' \<rparr>"
  have 1: "distinct (map f_id (db_file ?ctx))"
    by (simp add: alice_file_def bob_file_def)
  have 2: "alice_file \<in> set (db_file ?ctx)"
    by simp
  have 3: "userId alice_file \<noteq> session_user_id ?ctx"
    by (simp add: alice_file_def)
  from deleteFile_other_owner [OF 1 2 3, of "''f2''"] show ?thesis
    by (simp add: alice_file_def)
qed

end
